theory Spec2Isabelle
  imports Main
begin

section \<open>The project-creation conversation of gmonlink-bot\<close>

text \<open>
  A shallow embedding of \<^verbatim>\<open>src/lib/conversations/create-project.ts\<close>: the helper
  \<^verbatim>\<open>extractUsernameFromUrl\<close> and the conversation \<^verbatim>\<open>createProject\<close>.

  Strings are byte strings (the UTF-8 text of the source); the characters the code
  inspects are all ASCII. Everything the conversation obtains from a collaborator that is
  not part of the file (the texts the user sends, the photo message, the slug, the file
  service, the HTTP fetch, the MIME table, the storage upload and the database insert) is a
  field of the record \<open>env\<close>. Everything the conversation does to the outside (the three
  process-wide maps, chat messages, edits of the status message, console output, storage
  uploads, database inserts, the alert) is recorded in the record \<open>state\<close>. A thrown
  JavaScript exception is the outcome \<open>Threw\<close>. The chat calls before the insert and
  the logging are taken to succeed; the two chat calls after the maps are written (lines
  168-175) may throw, as may reading the name of a missing user. The formatting options of
  the chat calls are left out.
\<close>

subsection \<open>Regular expressions with backtracking\<close>

text \<open>
  The two patterns are built from literals, greedy optional groups and one greedy
  character-class repetition that is the capture group. A matcher maps the input to the
  list of the remaining inputs of all its matches, in the order in which a backtracking
  engine tries them; the first element is the match the engine reports.
\<close>

datatype platform = Twitter | Github

text \<open>The flag \<^verbatim>\<open>i\<close>: characters are compared after mapping a-z to A-Z.\<close>

definition canonicalize :: "char \<Rightarrow> char" where
  "canonicalize c =
     (case map_of (zip ''abcdefghijklmnopqrstuvwxyz'' ''ABCDEFGHIJKLMNOPQRSTUVWXYZ'') c of
        Some u \<Rightarrow> u
      | None \<Rightarrow> c)"

fun rx_lit :: "string \<Rightarrow> string \<Rightarrow> string list" where
  "rx_lit [] s = [s]"
| "rx_lit (p # ps) [] = []"
| "rx_lit (p # ps) (c # cs) = (if canonicalize c = canonicalize p then rx_lit ps cs else [])"

text \<open>A greedy optional group: first with the group, then without it.\<close>

definition rx_opt :: "(string \<Rightarrow> string list) \<Rightarrow> string \<Rightarrow> string list" where
  "rx_opt r s = r s @ [s]"

definition rx_seq ::
  "(string \<Rightarrow> string list) \<Rightarrow> (string \<Rightarrow> string list) \<Rightarrow> string \<Rightarrow> string list" where
  "rx_seq r1 r2 s = concat (map r2 (r1 s))"

definition rx_class :: "string \<Rightarrow> char \<Rightarrow> bool" where
  "rx_class members c = (\<exists>m \<in> set members. canonicalize m = canonicalize c)"

text \<open>
  The capture group \<^verbatim>\<open>([...]+)\<close>: one or more characters of the class, the longest
  run first. Each result is the captured text and the rest of the input.
\<close>

fun rx_plus :: "(char \<Rightarrow> bool) \<Rightarrow> string \<Rightarrow> (string \<times> string) list" where
  "rx_plus P [] = []"
| "rx_plus P (c # cs) =
     (if P c then map (\<lambda>(m, r). (c # m, r)) (rx_plus P cs) @ [([c], cs)] else [])"

text \<open>\<^verbatim>\<open>[a-zA-Z0-9_]\<close> for Twitter, \<^verbatim>\<open>[a-zA-Z0-9_-]\<close> for GitHub.\<close>

definition handleChars :: "platform \<Rightarrow> string" where
  "handleChars platform =
     ''abcdefghijklmnopqrstuvwxyzABCDEFGHIJKLMNOPQRSTUVWXYZ0123456789_'' @
     (case platform of Twitter \<Rightarrow> [] | Github \<Rightarrow> ''-'')"

definition domain :: "platform \<Rightarrow> string" where
  "domain platform =
     (case platform of Twitter \<Rightarrow> ''twitter.com/'' | Github \<Rightarrow> ''github.com/'')"

text \<open>
  \<^verbatim>\<open>/(?:https?:\/\/)?(?:www\.)?twitter\.com\/([a-zA-Z0-9_]+)/i\<close> and its GitHub
  sibling, matched at the start of \<open>s\<close>.
\<close>

definition regex :: "platform \<Rightarrow> string \<Rightarrow> (string \<times> string) list" where
  "regex platform s =
     concat (map (rx_plus (rx_class (handleChars platform)))
       (rx_seq
          (rx_opt (rx_seq (rx_lit ''http'') (rx_seq (rx_opt (rx_lit ''s'')) (rx_lit ''://''))))
          (rx_seq (rx_opt (rx_lit ''www.'')) (rx_lit (domain platform)))
          s))"

text \<open>
  \<^verbatim>\<open>url.match(regex)\<close> without the flag \<^verbatim>\<open>g\<close>: the match is tried at every start
  position from the left, and the result is capture group 1 of the first success.
\<close>

fun rx_match :: "(string \<Rightarrow> (string \<times> string) list) \<Rightarrow> string \<Rightarrow> string option" where
  "rx_match r [] = (case r [] of (cap, rest) # other \<Rightarrow> Some cap | [] \<Rightarrow> None)"
| "rx_match r (c # cs) =
     (case r (c # cs) of (cap, rest) # other \<Rightarrow> Some cap | [] \<Rightarrow> rx_match r cs)"

definition extractUsernameFromUrl :: "string \<Rightarrow> platform \<Rightarrow> string option" where
  "extractUsernameFromUrl url platform = rx_match (regex platform) url"

subsection \<open>The link steps\<close>

definition startsWith :: "string \<Rightarrow> string \<Rightarrow> bool" where
  "startsWith s p = (take (length p) s = p)"

text \<open>
  The value of the variable \<^verbatim>\<open>twitterId\<close> after lines 69-78; \<open>None\<close> when the
  validation \<^verbatim>\<open>if (!twitterId)\<close> stops the conversation (\<^verbatim>\<open>null\<close> and the empty
  string are the falsy values a string-or-null can take).
\<close>

definition twitterId :: "string \<Rightarrow> string option" where
  "twitterId twitterInput =
     (if startsWith twitterInput ''http'' then
        (case extractUsernameFromUrl twitterInput Twitter of
           None \<Rightarrow> None
         | Some u \<Rightarrow> if u = [] then None else Some u)
      else Some twitterInput)"

definition twitterLink :: "string \<Rightarrow> string option" where
  "twitterLink tid = (if tid \<noteq> ''no'' then Some (''https://twitter.com/'' @ tid) else None)"

definition githubId :: "string \<Rightarrow> string option" where
  "githubId githubInput =
     (if startsWith githubInput ''http'' then
        (case extractUsernameFromUrl githubInput Github of
           None \<Rightarrow> None
         | Some u \<Rightarrow> if u = [] then None else Some u)
      else Some githubInput)"

definition githubLink :: "string \<Rightarrow> string option" where
  "githubLink gid = (if gid \<noteq> ''no'' then Some (''https://github.com/'' @ gid) else None)"

subsection \<open>File name and content type\<close>

text \<open>\<^verbatim>\<open>s.split(sep)\<close> for a one-character separator: never the empty list.\<close>

fun split_string :: "char \<Rightarrow> string \<Rightarrow> string list" where
  "split_string sep [] = [] # []"
| "split_string sep (c # cs) =
     (if c = sep then [] # split_string sep cs
      else (case split_string sep cs of
              [] \<Rightarrow> [c] # []
            | x # xs \<Rightarrow> (c # x) # xs))"

text \<open>\<^verbatim>\<open>image.file_path.split(".").pop() || "jpg"\<close>\<close>

definition fileExtension :: "string \<Rightarrow> string" where
  "fileExtension path =
     (let popped = last (split_string CHR ''.'' path)
      in if popped = [] then ''jpg'' else popped)"

text \<open>
  \<^verbatim>\<open>mime.lookup(fileExtension) || "image/jpeg"\<close>; the lookup of the package
  \<^verbatim>\<open>mime-types\<close> is a parameter, \<open>None\<close> standing for its result \<^verbatim>\<open>false\<close>.
\<close>

definition contentType :: "(string \<Rightarrow> string option) \<Rightarrow> string \<Rightarrow> string" where
  "contentType lookup ext =
     (case lookup ext of
        None \<Rightarrow> ''image/jpeg''
      | Some t \<Rightarrow> if t = [] then ''image/jpeg'' else t)"

definition fileName :: "string \<Rightarrow> string \<Rightarrow> string" where
  "fileName slug ext = slug @ ''.'' @ ext"

subsection \<open>Collaborators and effects\<close>

type_synonym buffer = "nat list"

record photoSize =
  file_id :: string

text \<open>The message delivered by \<^verbatim>\<open>conversation.waitFor\<close>; \<open>photo\<close> may be missing.\<close>

record message =
  photo :: "photoSize list option"

text \<open>The result of \<^verbatim>\<open>bot.api.getFile\<close>; \<open>file_path\<close> is optional.\<close>

record telegramFile =
  file_path :: "string option"

text \<open>The \<^verbatim>\<open>data\<close> of a storage upload.\<close>

record imageRes =
  fullPath :: string

text \<open>
  What can be thrown: the \<^verbatim>\<open>TypeError\<close> of a property access on
  \<^verbatim>\<open>undefined\<close>, an \<^verbatim>\<open>Error\<close> made by the code (its message may be
  \<^verbatim>\<open>undefined\<close>), and an error value that comes from a collaborator.
\<close>

datatype exn = TypeError | Error "string option" | Failure string

datatype postgrestError = PostgrestError (error_message: string)

datatype link = Link (link_title: string) (link_url: string)

text \<open>The object given to \<^verbatim>\<open>insert\<close>.\<close>

record projectInsert =
  user_id :: int
  title :: string
  description :: string
  slug :: string
  avatar_url :: string
  links :: "link list"

text \<open>The row the database returns.\<close>

record project =
  project_id :: int
  project_columns :: projectInsert

text \<open>The result of \<^verbatim>\<open>getUser\<close>.\<close>

record user =
  username :: string

text \<open>
  \<open>user\<close> is \<open>None\<close> when \<^verbatim>\<open>getUser\<close> delivered \<^verbatim>\<open>undefined\<close> or \<^verbatim>\<open>null\<close>.
  \<open>editCreated\<close> and \<open>sendAlert\<close> are the outcomes of the chat calls of lines 168 and
  175: \<open>None\<close> when the call succeeds, the thrown error otherwise.
\<close>

record env =
  userId :: int
  user :: "user option"
  tipMessage :: string
  projectName :: string
  projectDescription :: string
  twitterInput :: string
  githubInput :: string
  message :: "message option"
  createSlug :: "string \<Rightarrow> string"
  botToken :: string
  getFile :: "string \<Rightarrow> exn + telegramFile"
  fetch :: "string \<Rightarrow> exn + buffer"
  mime_lookup :: "string \<Rightarrow> string option"
  upload :: "string \<Rightarrow> buffer \<Rightarrow> string \<Rightarrow> imageRes option \<times> exn option"
  insertProject :: "projectInsert \<Rightarrow> project option \<times> postgrestError option"
  alertsChannelId :: int
  editCreated :: "string \<Rightarrow> exn option"
  sendAlert :: "int \<Rightarrow> string \<Rightarrow> exn option"

datatype logEntry = LogError exn | LogText string

record state =
  isInConversationRecord :: "int \<rightharpoonup> bool"
  projectRecord :: "int \<rightharpoonup> project"
  activeProjectRecord :: "int \<rightharpoonup> int"
  replies :: "string list"
  edits :: "string list"
  console :: "logEntry list"
  uploads :: "(string \<times> buffer \<times> string) list"
  inserts :: "projectInsert list"
  alerts :: "(int \<times> string) list"

datatype outcome = Returned | Threw exn

text \<open>\<^verbatim>\<open>ctx.reply(text)\<close>\<close>

definition reply :: "string \<Rightarrow> state \<Rightarrow> state" where
  "reply text st = st\<lparr>replies := replies st @ [text]\<rparr>"

text \<open>\<^verbatim>\<open>ctx.api.editMessageText(chat, uploadingMessage.message_id, text)\<close>\<close>

definition editMessageText :: "string \<Rightarrow> state \<Rightarrow> state" where
  "editMessageText text st = st\<lparr>edits := edits st @ [text]\<rparr>"

definition console_error :: "exn \<Rightarrow> state \<Rightarrow> state" where
  "console_error e st = st\<lparr>console := console st @ [LogError e]\<rparr>"

definition console_log :: "string \<Rightarrow> state \<Rightarrow> state" where
  "console_log text st = st\<lparr>console := console st @ [LogText text]\<rparr>"

definition sendMessage :: "int \<Rightarrow> string \<Rightarrow> state \<Rightarrow> state" where
  "sendMessage chat text st = st\<lparr>alerts := alerts st @ [(chat, text)]\<rparr>"

subsection \<open>Message texts\<close>

text \<open>The non-ASCII signs of the messages, as their UTF-8 bytes.\<close>

definition warning_sign :: string where
  "warning_sign = [CHR 0xE2, CHR 0x9A, CHR 0xA0, CHR 0xEF, CHR 0xB8, CHR 0x8F]"

definition hourglass :: string where
  "hourglass = [CHR 0xE2, CHR 0x8F, CHR 0xB3]"

definition check_mark :: string where
  "check_mark = [CHR 0xE2, CHR 0x9C, CHR 0x85]"

definition cross_mark :: string where
  "cross_mark = [CHR 0xE2, CHR 0x9D, CHR 0x8C]"

definition party_popper :: string where
  "party_popper = [CHR 0xF0, CHR 0x9F, CHR 0x8E, CHR 0x89]"

text \<open>\<^verbatim>\<open>const steps = 3\<close>, as the template literals print it.\<close>

definition steps :: string where
  "steps = ''3''"

definition promptName :: string where
  \<open>promptName = ''<code>[1/'' @ steps @ '']</code>'' @ [CHR 0x0A] @
     ''Sure! Let's create a new project. What's the name of the project or person you're creating a gmon.link for?''\<close>

definition promptDescription :: "string \<Rightarrow> string" where
  \<open>promptDescription name = ''<code>[2/'' @ steps @ '']</code>'' @ [CHR 0x0A] @
     ''Great! <code>'' @ name @
     ''</code> it is. Now, let's write a short description for the project.''\<close>

definition promptTwitter :: string where
  \<open>promptTwitter = ''<code>[3/'' @ steps @ '']</code>'' @ [CHR 0x0A] @
     ''Do you have a Twitter handle or a Twitter URL? Please provide it. Type "no" if you don't want to add it.''\<close>

definition promptGithub :: string where
  \<open>promptGithub = ''<code>[4/'' @ steps @ '']</code>'' @ [CHR 0x0A] @
     ''Do you have a GitHub ID or GitHub URL? Please provide it. Type "no" to skip.''\<close>

definition promptImage :: string where
  \<open>promptImage = ''<code>[5/'' @ steps @ '']</code>'' @ [CHR 0x0A] @
     ''Fab! Let's add an image for the project. Send a photo or an image of the project.''\<close>

definition invalidTwitterUrl :: string where
  \<open>invalidTwitterUrl =
     warning_sign @ '' The provided Twitter URL is invalid. Please try again or type 'no'.''\<close>

definition invalidGithubUrl :: string where
  \<open>invalidGithubUrl =
     warning_sign @ '' The provided GitHub URL is invalid. Please try again or type 'no'.''\<close>

definition invalidImage :: string where
  "invalidImage = ''Please provide a valid image.''"

definition uploadingText :: string where
  \<open>uploadingText = hourglass @ '' We're uploading your image...''\<close>

definition uploadedText :: string where
  "uploadedText = check_mark @ '' Image uploaded successfully!''"

definition uploadErrorText :: string where
  "uploadErrorText = cross_mark @ '' Sorry, there was an error uploading your image.''"

definition uploadedAgainText :: string where
  "uploadedAgainText = party_popper @ '' Image uploaded successfully!''"

definition creatingText :: string where
  \<open>creatingText = hourglass @ '' We're creating your project...''\<close>

definition insertErrorText :: string where
  "insertErrorText = ''An error occurred while creating the project. Please try again.''"

definition projectLinkHtml :: "string \<Rightarrow> string" where
  \<open>projectLinkHtml sl = ''<a href="gmon.link/'' @ sl @ ''">gmon.link/'' @ sl @ ''</a>''\<close>

definition createdText :: "string \<Rightarrow> string" where
  \<open>createdText sl =
     party_popper @ '' <b>Project created successfully!</b> Here's the link to the project: '' @
     projectLinkHtml sl\<close>

definition alertText :: "string \<Rightarrow> string \<Rightarrow> string" where
  "alertText name sl = name @ '' created a new project. '' @ projectLinkHtml sl"

subsection \<open>The image upload\<close>

text \<open>
  The body of the \<^verbatim>\<open>try\<close> block up to the assignment of \<^verbatim>\<open>imageData\<close> (lines
  113-137): the thrown error or the value assigned, and the storage uploads issued. The
  last element of an empty photo list is \<^verbatim>\<open>undefined\<close>, whose \<^verbatim>\<open>file_id\<close> is a
  \<^verbatim>\<open>TypeError\<close>. A missing \<^verbatim>\<open>file_path\<close> is printed as \<^verbatim>\<open>undefined\<close> in the
  download address. Download and conversion to a buffer are the one collaborator
  \<open>fetch\<close>.
\<close>

definition noFilePath :: exn where
  "noFilePath = Error (Some ''No file path found in the image.'')"

definition try_upload ::
  "env \<Rightarrow> string \<Rightarrow> photoSize list \<Rightarrow> (exn + imageRes option) \<times> (string \<times> buffer \<times> string) list" where
  "try_upload env sl ps =
     (if ps = [] then (Inl TypeError, [])
      else
        let imageId = file_id (last ps) in
        (case getFile env imageId of
           Inl e \<Rightarrow> (Inl e, [])
         | Inr imageFile \<Rightarrow>
             let projectImage =
                   ''https://api.telegram.org/file/bot'' @ botToken env @ ''/'' @
                   (case file_path imageFile of None \<Rightarrow> ''undefined'' | Some p \<Rightarrow> p) in
             (case fetch env projectImage of
                Inl e \<Rightarrow> (Inl e, [])
              | Inr buffer \<Rightarrow>
                  (case file_path imageFile of
                     None \<Rightarrow> (Inl noFilePath, [])
                   | Some p \<Rightarrow>
                       if p = [] then (Inl noFilePath, [])
                       else
                         let ext = fileExtension p;
                             ct = contentType (mime_lookup env) ext;
                             fn = fileName sl ext in
                         (case upload env fn buffer ct of
                            (imageRes, Some error) \<Rightarrow> (Inl error, [(fn, buffer, ct)])
                          | (imageRes, None) \<Rightarrow> (Inr imageRes, [(fn, buffer, ct)]))))))"

subsection \<open>The conversation\<close>

text \<open>
  The conversation is written in four parts, each ending in the next: lines 41-79
  (\<open>createProject\<close>), lines 81-97 (\<open>createProject_github\<close>), lines 99-142
  (\<open>createProject_image\<close>) and lines 144-177 (\<open>createProject_insert\<close>).
\<close>

text \<open>
  Lines 144-177. \<open>imageData\<close> is \<open>None\<close> when the variable is \<^verbatim>\<open>undefined\<close> or
  \<^verbatim>\<open>null\<close>; reading \<^verbatim>\<open>imageData.fullPath\<close> then throws. After the two maps are
  written, the last edit of the status message, the reading of \<^verbatim>\<open>user.username\<close> and
  the alert can each throw; the maps stay written.
\<close>

definition createProject_insert ::
  "env \<Rightarrow> string \<Rightarrow> string option \<Rightarrow> string option \<Rightarrow> imageRes option \<Rightarrow> state
     \<Rightarrow> outcome \<times> state" where
  "createProject_insert env sl twLink ghLink imageData st0 =
     (let st1 = editMessageText uploadedAgainText st0 in
      (case imageData of
         None \<Rightarrow> (Threw TypeError, st1)
       | Some d \<Rightarrow>
           let imageUrl = fullPath d;
               st2 = console_log imageUrl st1;
               st3 = editMessageText creatingText st2;
               row = \<lparr>user_id = userId env, title = projectName env,
                      description = projectDescription env, slug = sl, avatar_url = imageUrl,
                      links =
                        (case twLink of
                           None \<Rightarrow> []
                         | Some u \<Rightarrow> if u = [] then [] else [Link ''Twitter'' u]) @
                        (case ghLink of
                           None \<Rightarrow> []
                         | Some u \<Rightarrow> if u = [] then [] else [Link ''GitHub'' u])\<rparr>;
               st4 = st3\<lparr>inserts := inserts st3 @ [row]\<rparr>
           in (case insertProject env row of
                 (data, Some insertError) \<Rightarrow>
                   (Threw (Error (Some (error_message insertError))), reply insertErrorText st4)
               | (None, None) \<Rightarrow>
                   (Threw (Error None), reply insertErrorText st4)
               | (Some data, None) \<Rightarrow>
                   let st5 = st4\<lparr>projectRecord := (projectRecord st4)(userId env \<mapsto> data)\<rparr>;
                       st6 = st5\<lparr>activeProjectRecord :=
                                    (activeProjectRecord st5)(userId env \<mapsto> project_id data)\<rparr>
                   in (case editCreated env (createdText sl) of
                         Some e \<Rightarrow> (Threw e, st6)
                       | None \<Rightarrow>
                           let st7 = editMessageText (createdText sl) st6 in
                           (case user env of
                              None \<Rightarrow> (Threw TypeError, st7)
                            | Some u \<Rightarrow>
                                let text = alertText (username u) sl in
                                (case sendAlert env (alertsChannelId env) text of
                                   Some e \<Rightarrow> (Threw e, st7)
                                 | None \<Rightarrow>
                                     (Returned, sendMessage (alertsChannelId env) text st7)))))))"

text \<open>Lines 99-142: the photo, the slug, and the \<^verbatim>\<open>try\<close>/\<^verbatim>\<open>catch\<close>.\<close>

definition createProject_image ::
  "env \<Rightarrow> string option \<Rightarrow> string option \<Rightarrow> state \<Rightarrow> outcome \<times> state" where
  "createProject_image env twLink ghLink st0 =
     (let st1 = reply promptImage st0 in
      (case message env of
         None \<Rightarrow> (Returned, reply invalidImage st1)
       | Some m \<Rightarrow>
           (case photo m of
              None \<Rightarrow> (Returned, reply invalidImage st1)
            | Some ps \<Rightarrow>
                let st2 = reply uploadingText st1;
                    sl = createSlug env (projectName env) in
                (case try_upload env sl ps of
                   (Inr imageRes, ups) \<Rightarrow>
                     createProject_insert env sl twLink ghLink imageRes
                       (editMessageText uploadedText (st2\<lparr>uploads := uploads st2 @ ups\<rparr>))
                 | (Inl error, ups) \<Rightarrow>
                     createProject_insert env sl twLink ghLink None
                       (editMessageText uploadErrorText
                          (console_error error (st2\<lparr>uploads := uploads st2 @ ups\<rparr>)))))))"

text \<open>Lines 81-97.\<close>

definition createProject_github :: "env \<Rightarrow> string option \<Rightarrow> state \<Rightarrow> outcome \<times> state" where
  "createProject_github env twLink st0 =
     (let st1 = reply promptGithub st0 in
      (case githubId (githubInput env) of
         None \<Rightarrow> (Returned, reply invalidGithubUrl st1)
       | Some gid \<Rightarrow> createProject_image env twLink (githubLink gid) st1))"

text \<open>Lines 41-79.\<close>

definition createProject :: "env \<Rightarrow> state \<Rightarrow> outcome \<times> state" where
  "createProject env st0 =
     (let st1 = st0\<lparr>isInConversationRecord := (isInConversationRecord st0)(userId env \<mapsto> True)\<rparr>;
          st2 = reply (tipMessage env) st1;
          st3 = reply promptName st2;
          st4 = reply (promptDescription (projectName env)) st3;
          st5 = reply promptTwitter st4
      in (case twitterId (twitterInput env) of
            None \<Rightarrow> (Returned, reply invalidTwitterUrl st5)
          | Some tid \<Rightarrow> createProject_github env (twitterLink tid) st5))"

subsection \<open>Vocabulary of the properties\<close>

text \<open>
  Every step before the insert succeeded: both link inputs are valid or skipped, a photo
  arrived, and the upload assigned a result. The value is the uploaded image.
\<close>

definition uploadedImage :: "env \<Rightarrow> imageRes option" where
  "uploadedImage env =
     (case twitterId (twitterInput env) of
        None \<Rightarrow> None
      | Some tid \<Rightarrow>
          (case githubId (githubInput env) of
             None \<Rightarrow> None
           | Some gid \<Rightarrow>
               (case message env of
                  None \<Rightarrow> None
                | Some m \<Rightarrow>
                    (case photo m of
                       None \<Rightarrow> None
                     | Some ps \<Rightarrow>
                         (case fst (try_upload env (createSlug env (projectName env)) ps) of
                            Inl e \<Rightarrow> None
                          | Inr d \<Rightarrow> d)))))"

text \<open>A well-formed handle of the claim: a non-empty text over the listed characters.\<close>

definition handle :: "platform \<Rightarrow> string \<Rightarrow> bool" where
  "handle platform h = (h \<noteq> [] \<and> (\<forall>c \<in> set h. c \<in> set (handleChars platform)))"

subsection \<open>A sample conversation\<close>

text \<open>
  The end-to-end scenario: the name Acme, no Twitter link, a GitHub address, a photo in
  two sizes, and collaborators that all succeed.
\<close>

definition acme :: env where
  "acme =
     \<lparr>userId = 7, user = Some \<lparr>username = ''alice''\<rparr>, tipMessage = ''Tip'',
      projectName = ''Acme'', projectDescription = ''A widget maker'',
      twitterInput = ''no'', githubInput = ''https://github.com/acme-oss'',
      message = Some \<lparr>photo = Some [\<lparr>file_id = ''small''\<rparr>, \<lparr>file_id = ''large''\<rparr>]\<rparr>,
      createSlug = (\<lambda>name. ''acme''),
      botToken = ''T'',
      getFile = (\<lambda>i. Inr \<lparr>file_path = Some ''photos/file_1.jpg''\<rparr>),
      fetch = (\<lambda>u. Inr [1, 2, 3]),
      mime_lookup = (\<lambda>e. if e = ''jpg'' then Some ''image/jpeg''
                           else if e = ''png'' then Some ''image/png'' else None),
      upload = (\<lambda>fn b ct. (Some \<lparr>fullPath = ''gmon.link/'' @ fn\<rparr>, None)),
      insertProject = (\<lambda>row. (Some \<lparr>project_id = 42, project_columns = row\<rparr>, None)),
      alertsChannelId = 100,
      editCreated = (\<lambda>text. None),
      sendAlert = (\<lambda>chat text. None)\<rparr>"

definition start :: state where
  "start =
     \<lparr>isInConversationRecord = Map.empty, projectRecord = Map.empty,
      activeProjectRecord = Map.empty, replies = [], edits = [], console = [],
      uploads = [], inserts = [], alerts = []\<rparr>"

section \<open>Properties of the pattern matcher\<close>

lemma rx_plus_all:
  "h \<noteq> [] \<Longrightarrow> \<forall>c \<in> set h. P c \<Longrightarrow> \<exists>other. rx_plus P h = (h, []) # other"
proof (induction h)
  case Nil
  then show ?case by simp
next
  case (Cons c cs)
  show ?case
  proof (cases cs)
    case Nil
    with Cons.prems show ?thesis by simp
  next
    case (Cons d ds)
    with Cons.IH Cons.prems obtain other where "rx_plus P cs = (cs, []) # other"
      by auto
    with Cons.prems show ?thesis by simp
  qed
qed

lemma handle_rx_plus:
  assumes "handle platform h"
  shows "\<exists>other. rx_plus (rx_class (handleChars platform)) h = (h, []) # other"
proof (rule rx_plus_all)
  from assms show "h \<noteq> []" by (simp add: handle_def)
  from assms show "\<forall>c \<in> set h. rx_class (handleChars platform) c"
    unfolding handle_def rx_class_def by blast
qed

lemma extract_twitter_url:
  assumes "handle Twitter h"
  shows "extractUsernameFromUrl (''https://twitter.com/'' @ h) Twitter = Some h"
    and "extractUsernameFromUrl (''https://www.twitter.com/'' @ h) Twitter = Some h"
    and "extractUsernameFromUrl (''twitter.com/'' @ h) Twitter = Some h"
    and "extractUsernameFromUrl (''www.twitter.com/'' @ h) Twitter = Some h"
proof -
  from handle_rx_plus[OF assms] obtain other
    where o: "rx_plus (rx_class (handleChars Twitter)) h = (h, []) # other" by blast
  show "extractUsernameFromUrl (''https://twitter.com/'' @ h) Twitter = Some h"
    by (simp add: extractUsernameFromUrl_def regex_def rx_seq_def rx_opt_def canonicalize_def domain_def o)
  show "extractUsernameFromUrl (''https://www.twitter.com/'' @ h) Twitter = Some h"
    by (simp add: extractUsernameFromUrl_def regex_def rx_seq_def rx_opt_def canonicalize_def domain_def o)
  show "extractUsernameFromUrl (''twitter.com/'' @ h) Twitter = Some h"
    by (simp add: extractUsernameFromUrl_def regex_def rx_seq_def rx_opt_def canonicalize_def domain_def o)
  show "extractUsernameFromUrl (''www.twitter.com/'' @ h) Twitter = Some h"
    by (simp add: extractUsernameFromUrl_def regex_def rx_seq_def rx_opt_def canonicalize_def domain_def o)
qed

lemma rx_plus_nonempty: "(cap, rest) \<in> set (rx_plus P s) \<Longrightarrow> cap \<noteq> []"
  by (induction s arbitrary: cap rest) (auto split: if_splits)

lemma rx_match_found:
  "rx_match r s = Some cap \<Longrightarrow> \<exists>s' rest other. r s' = (cap, rest) # other"
proof (induction s)
  case Nil
  then show ?case by (auto split: list.splits)
next
  case (Cons c cs)
  then show ?case by (cases "r (c # cs)") auto
qed

lemma extractUsernameFromUrl_nonempty:
  assumes "extractUsernameFromUrl url platform = Some u"
  shows "u \<noteq> []"
proof -
  from assms obtain s' rest other where "regex platform s' = (u, rest) # other"
    unfolding extractUsernameFromUrl_def by (blast dest: rx_match_found)
  then have "(u, rest) \<in> set (regex platform s')" by simp
  then obtain x where "(u, rest) \<in> set (rx_plus (rx_class (handleChars platform)) x)"
    unfolding regex_def by auto
  then show ?thesis by (rule rx_plus_nonempty)
qed

lemma twitterId_None:
  "twitterId inp = None \<longleftrightarrow>
     startsWith inp ''http'' \<and> extractUsernameFromUrl inp Twitter = None"
  by (auto simp add: twitterId_def dest: extractUsernameFromUrl_nonempty split: option.splits)

lemma githubId_None:
  "githubId inp = None \<longleftrightarrow>
     startsWith inp ''http'' \<and> extractUsernameFromUrl inp Github = None"
  by (auto simp add: githubId_def dest: extractUsernameFromUrl_nonempty split: option.splits)

section \<open>Properties of the file name\<close>

lemma split_string_undotted: "sep \<notin> set s \<Longrightarrow> split_string sep s = [s]"
  by (induction s) auto

lemma split_string_nonempty: "split_string sep s \<noteq> []"
  by (induction s) (auto split: list.splits)

lemma split_string_last_part:
  "sep \<notin> set e \<Longrightarrow> split_string sep (p @ sep # e) = split_string sep p @ [e]"
proof (induction p)
  case Nil
  then show ?case by (simp add: split_string_undotted)
next
  case (Cons c cs)
  then show ?case
    using split_string_nonempty[of sep cs] by (cases "split_string sep cs") auto
qed

text \<open>A path with a dot: the extension is what follows the last dot, or jpg if nothing follows.\<close>

lemma fileExtension_dotted:
  "CHR ''.'' \<notin> set e \<Longrightarrow> fileExtension (p @ ''.'' @ e) = (if e = [] then ''jpg'' else e)"
  by (simp add: fileExtension_def split_string_last_part)

text \<open>A path without a dot: the extension is the whole path.\<close>

lemma fileExtension_undotted:
  "CHR ''.'' \<notin> set p \<Longrightarrow> fileExtension p = (if p = [] then ''jpg'' else p)"
  by (simp add: fileExtension_def split_string_undotted)

section \<open>The parts of the conversation\<close>

lemmas effect_defs = reply_def editMessageText_def console_error_def console_log_def
  sendMessage_def

text \<open>The storage call of the try block, when file service and download succeed.\<close>

lemma try_upload_call:
  assumes "ps \<noteq> []" and "getFile env (file_id (last ps)) = Inr f"
    and "file_path f = Some p" and "p \<noteq> []"
    and "fetch env (''https://api.telegram.org/file/bot'' @ botToken env @ ''/'' @ p) = Inr b"
  shows "snd (try_upload env sl ps) =
           [(fileName sl (fileExtension p), b, contentType (mime_lookup env) (fileExtension p))]"
  using assms by (simp add: try_upload_def Let_def split: prod.splits option.splits)

text \<open>The ways in which the try block throws.\<close>

lemma try_upload_no_photo: "try_upload env sl [] = (Inl TypeError, [])"
  by (simp add: try_upload_def)

lemma try_upload_getFile_fails:
  assumes "ps \<noteq> []" and "getFile env (file_id (last ps)) = Inl e"
  shows "try_upload env sl ps = (Inl e, [])"
  using assms by (simp add: try_upload_def)

lemma try_upload_fetch_fails:
  assumes "ps \<noteq> []" and "getFile env (file_id (last ps)) = Inr f"
    and "fetch env (''https://api.telegram.org/file/bot'' @ botToken env @ ''/'' @
           (case file_path f of None \<Rightarrow> ''undefined'' | Some p \<Rightarrow> p)) = Inl e"
  shows "try_upload env sl ps = (Inl e, [])"
  using assms by (simp add: try_upload_def)

lemma try_upload_no_file_path:
  assumes "ps \<noteq> []" and "getFile env (file_id (last ps)) = Inr f"
    and "file_path f = None \<or> file_path f = Some []"
  shows "\<exists>e. try_upload env sl ps = (Inl e, [])"
  using assms by (auto simp add: try_upload_def Let_def split: sum.splits)

lemma try_upload_rejected:
  assumes "ps \<noteq> []" and "getFile env (file_id (last ps)) = Inr f"
    and "file_path f = Some p" and "p \<noteq> []"
    and "fetch env (''https://api.telegram.org/file/bot'' @ botToken env @ ''/'' @ p) = Inr b"
    and "upload env (fileName sl (fileExtension p)) b
           (contentType (mime_lookup env) (fileExtension p)) = (d, Some e)"
  shows "fst (try_upload env sl ps) = Inl e"
  using assms by (simp add: try_upload_def Let_def)


text \<open>A link is never the empty string, so the tests of lines 154-155 only ask for \<^verbatim>\<open>null\<close>.\<close>

lemma twitterLink_nonempty: "twitterLink tid = Some u \<Longrightarrow> u \<noteq> []"
  by (auto simp add: twitterLink_def split: if_splits)

lemma githubLink_nonempty: "githubLink gid = Some u \<Longrightarrow> u \<noteq> []"
  by (auto simp add: githubLink_def split: if_splits)

text \<open>The conversation up to the end of the try/catch, when both links pass and a photo arrives.\<close>

lemma createProject_to_insert:
  assumes "twitterId (twitterInput env) = Some tid"
    and "githubId (githubInput env) = Some gid"
    and "message env = Some m" and "photo m = Some ps"
    and "try_upload env (createSlug env (projectName env)) ps = (r, ups)"
  shows "createProject env st =
           createProject_insert env (createSlug env (projectName env))
             (twitterLink tid) (githubLink gid) (case r of Inl e \<Rightarrow> None | Inr d \<Rightarrow> d)
             (st\<lparr>isInConversationRecord := (isInConversationRecord st)(userId env \<mapsto> True),
                 replies := replies st @
                   [tipMessage env, promptName, promptDescription (projectName env),
                    promptTwitter, promptGithub, promptImage, uploadingText],
                 uploads := uploads st @ ups,
                 console := console st @ (case r of Inl e \<Rightarrow> [LogError e] | Inr d \<Rightarrow> []),
                 edits := edits st @
                   [case r of Inl e \<Rightarrow> uploadErrorText | Inr d \<Rightarrow> uploadedText]\<rparr>)"
  using assms
  by (cases r) (simp_all add: createProject_def createProject_github_def createProject_image_def
      effect_defs Let_def)

lemma createProject_insert_undefined:
  "createProject_insert env sl tw gh None st =
     (Threw TypeError, st\<lparr>edits := edits st @ [uploadedAgainText]\<rparr>)"
  by (simp add: createProject_insert_def effect_defs)

text \<open>The row that lines 152-157 build.\<close>

lemma createProject_insert_row:
  assumes "createProject_insert env sl tw gh (Some d) st = (out, st')"
  shows "inserts st' = inserts st @
           [\<lparr>user_id = userId env, title = projectName env,
             description = projectDescription env, slug = sl, avatar_url = fullPath d,
             links =
               (case tw of None \<Rightarrow> [] | Some u \<Rightarrow> if u = [] then [] else [Link ''Twitter'' u]) @
               (case gh of None \<Rightarrow> [] | Some u \<Rightarrow> if u = [] then [] else [Link ''GitHub'' u])\<rparr>]"
  using assms
  by (auto simp add: createProject_insert_def effect_defs Let_def split: option.splits prod.splits)


lemma createProject_insert_fails:
  assumes "createProject_insert env sl tw gh (Some d) st = (out, st')"
    and "insertProject env (last (inserts st')) = (data, insertError)"
    and "insertError \<noteq> None \<or> data = None"
  shows "out = Threw (Error (map_option error_message insertError)) \<and>
         replies st' = replies st @ [insertErrorText] \<and>
         edits st' = edits st @ [uploadedAgainText, creatingText] \<and>
         projectRecord st' = projectRecord st \<and>
         activeProjectRecord st' = activeProjectRecord st \<and>
         alerts st' = alerts st"
  using assms
  by (auto simp add: createProject_insert_def effect_defs Let_def split: option.splits prod.splits)


text \<open>The conversations that never reach the insert.\<close>

lemma createProject_stops_early:
  assumes "createProject env st = (out, st')"
    and "twitterId (twitterInput env) = None \<or> githubId (githubInput env) = None \<or>
         message env = None \<or> (\<exists>m. message env = Some m \<and> photo m = None)"
  shows "out = Returned \<and> inserts st' = inserts st \<and> uploads st' = uploads st \<and>
         edits st' = edits st \<and> alerts st' = alerts st \<and> console st' = console st \<and>
         projectRecord st' = projectRecord st \<and>
         activeProjectRecord st' = activeProjectRecord st \<and>
         last (replies st') =
           (if twitterId (twitterInput env) = None then invalidTwitterUrl
            else if githubId (githubInput env) = None then invalidGithubUrl
            else invalidImage)"
  using assms
  by (auto simp add: createProject_def createProject_github_def createProject_image_def
      effect_defs Let_def split: option.splits)

lemma createProject_cases:
  obtains (early)
    "twitterId (twitterInput env) = None \<or> githubId (githubInput env) = None \<or>
     message env = None \<or> (\<exists>m. message env = Some m \<and> photo m = None)"
  | (failed) tid gid m ps r ups where
      "twitterId (twitterInput env) = Some tid" "githubId (githubInput env) = Some gid"
      "message env = Some m" "photo m = Some ps"
      "try_upload env (createSlug env (projectName env)) ps = (r, ups)"
      "(case r of Inl e \<Rightarrow> None | Inr d \<Rightarrow> d) = None"
  | (uploaded) tid gid m ps d ups where
      "twitterId (twitterInput env) = Some tid" "githubId (githubInput env) = Some gid"
      "message env = Some m" "photo m = Some ps"
      "try_upload env (createSlug env (projectName env)) ps = (Inr (Some d), ups)"
proof (cases "twitterId (twitterInput env)")
  case None
  then show ?thesis using early by simp
next
  case tid: (Some tid)
  show ?thesis
  proof (cases "githubId (githubInput env)")
    case None
    then show ?thesis using early by simp
  next
    case gid: (Some gid)
    show ?thesis
    proof (cases "message env")
      case None
      then show ?thesis using early by simp
    next
      case m: (Some m)
      show ?thesis
      proof (cases "photo m")
        case None
        with m show ?thesis using early by simp
      next
        case ps: (Some ps)
        obtain r ups where r: "try_upload env (createSlug env (projectName env)) ps = (r, ups)"
          by (cases "try_upload env (createSlug env (projectName env)) ps") blast
        show ?thesis
        proof (cases "case r of Inl e \<Rightarrow> None | Inr d \<Rightarrow> d")
          case None
          with tid gid m ps r show ?thesis using failed by blast
        next
          case (Some d)
          then have "r = Inr (Some d)" by (cases r) simp_all
          with tid gid m ps r show ?thesis using uploaded by blast
        qed
      qed
    qed
  qed
qed

lemma uploadedImage_reached:
  assumes "twitterId (twitterInput env) = Some tid" and "githubId (githubInput env) = Some gid"
    and "message env = Some m" and "photo m = Some ps"
    and "try_upload env (createSlug env (projectName env)) ps = (r, ups)"
  shows "uploadedImage env = (case r of Inl e \<Rightarrow> None | Inr d \<Rightarrow> d)"
  using assms by (simp add: uploadedImage_def)

text \<open>The upload throws, or assigns nothing: the conversation ends in a \<open>TypeError\<close>.\<close>

lemma createProject_upload_failed:
  assumes "createProject env st = (out, st')"
    and "twitterId (twitterInput env) = Some tid" and "githubId (githubInput env) = Some gid"
    and "message env = Some m" and "photo m = Some ps"
    and "try_upload env (createSlug env (projectName env)) ps = (r, ups)"
    and "(case r of Inl e \<Rightarrow> None | Inr d \<Rightarrow> d) = None"
  shows "out = Threw TypeError \<and> inserts st' = inserts st \<and>
         projectRecord st' = projectRecord st \<and>
         activeProjectRecord st' = activeProjectRecord st \<and> alerts st' = alerts st \<and>
         uploads st' = uploads st @ ups \<and>
         console st' = console st @ (case r of Inl e \<Rightarrow> [LogError e] | Inr d \<Rightarrow> []) \<and>
         edits st' = edits st @
           [case r of Inl e \<Rightarrow> uploadErrorText | Inr d \<Rightarrow> uploadedText, uploadedAgainText]"
proof -
  note eq = createProject_to_insert[OF assms(2-6), of st]
  from assms(1) show ?thesis
    unfolding eq assms(7) createProject_insert_undefined by auto
qed

text \<open>The upload assigns a result: the conversation continues with lines 144-177.\<close>

lemma createProject_uploaded:
  assumes "createProject env st = (out, st')"
    and "twitterId (twitterInput env) = Some tid" and "githubId (githubInput env) = Some gid"
    and "message env = Some m" and "photo m = Some ps"
    and "try_upload env (createSlug env (projectName env)) ps = (Inr (Some d), ups)"
  shows "\<exists>st1.
           createProject_insert env (createSlug env (projectName env))
             (twitterLink tid) (githubLink gid) (Some d) st1 = (out, st') \<and>
           projectRecord st1 = projectRecord st \<and>
           activeProjectRecord st1 = activeProjectRecord st \<and>
           inserts st1 = inserts st \<and> alerts st1 = alerts st \<and>
           uploads st1 = uploads st @ ups \<and> console st1 = console st \<and>
           edits st1 = edits st @ [uploadedText]"
proof -
  note eq = createProject_to_insert[OF assms(2-6), of st]
  from assms(1) show ?thesis
    unfolding eq by (intro exI conjI, simp only: sum.case, simp_all)
qed

text \<open>The row given to the insert, whenever one is issued.\<close>

lemma inserted_row:
  assumes run: "createProject env st = (out, st')" and ins: "inserts st' \<noteq> inserts st"
  shows "\<exists>tid gid d.
           twitterId (twitterInput env) = Some tid \<and>
           githubId (githubInput env) = Some gid \<and>
           uploadedImage env = Some d \<and>
           inserts st' = inserts st @
             [\<lparr>user_id = userId env, title = projectName env,
               description = projectDescription env,
               slug = createSlug env (projectName env), avatar_url = fullPath d,
               links =
                 (case twitterLink tid of None \<Rightarrow> [] | Some u \<Rightarrow> [Link ''Twitter'' u]) @
                 (case githubLink gid of None \<Rightarrow> [] | Some u \<Rightarrow> [Link ''GitHub'' u])\<rparr>]"
proof (cases rule: createProject_cases[of env])
  case early
  from createProject_stops_early[OF run early] ins show ?thesis by simp
next
  case (failed tid gid m ps r ups)
  from createProject_upload_failed[OF run failed] ins show ?thesis by simp
next
  case (uploaded tid gid m ps d ups)
  from createProject_uploaded[OF run uploaded] obtain st1 where
    st1: "createProject_insert env (createSlug env (projectName env))
            (twitterLink tid) (githubLink gid) (Some d) st1 = (out, st')"
    and i1: "inserts st1 = inserts st" by blast
  have tw: "(case twitterLink tid of None \<Rightarrow> [] | Some u \<Rightarrow> if u = [] then [] else [Link ''Twitter'' u]) =
            (case twitterLink tid of None \<Rightarrow> [] | Some u \<Rightarrow> [Link ''Twitter'' u])"
    by (simp add: twitterLink_def)
  have gh: "(case githubLink gid of None \<Rightarrow> [] | Some u \<Rightarrow> if u = [] then [] else [Link ''GitHub'' u]) =
            (case githubLink gid of None \<Rightarrow> [] | Some u \<Rightarrow> [Link ''GitHub'' u])"
    by (simp add: githubLink_def)
  have ui: "uploadedImage env = Some d"
    using uploadedImage_reached[OF uploaded] by simp
  from createProject_insert_row[OF st1] uploaded(1,2) ui show ?thesis
    unfolding tw gh i1 by blast
qed

section \<open>The claims\<close>




text \<open>
  Claim C2. When the \<^verbatim>\<open>try\<close> block throws, the handler logs the error and edits the
  status message to the error text, but the conversation goes on: the status message is
  edited once more, and reading \<^verbatim>\<open>imageData.fullPath\<close> of the unassigned variable throws
  a \<open>TypeError\<close>. Nothing is inserted and no map changes.
\<close>

theorem upload_failure_falls_through:
  assumes "createProject env st = (out, st')"
    and "twitterId (twitterInput env) = Some tid" and "githubId (githubInput env) = Some gid"
    and "message env = Some m" and "photo m = Some ps"
    and "try_upload env (createSlug env (projectName env)) ps = (Inl e, ups)"
  shows "out = Threw TypeError \<and>
         console st' = console st @ [LogError e] \<and>
         edits st' = edits st @ [uploadErrorText, uploadedAgainText] \<and>
         uploadedImage env = None \<and>
         inserts st' = inserts st \<and>
         projectRecord st' = projectRecord st \<and>
         activeProjectRecord st' = activeProjectRecord st"
  using createProject_upload_failed[OF assms] uploadedImage_reached[OF assms(2-6)] by simp

text \<open>The sample conversation with a file that has no path.\<close>

theorem upload_failure_falls_through_witness:
  "fst (createProject (acme\<lparr>getFile := (\<lambda>i. Inr \<lparr>file_path = None\<rparr>)\<rparr>) start) =
     Threw TypeError \<and>
   console (snd (createProject (acme\<lparr>getFile := (\<lambda>i. Inr \<lparr>file_path = None\<rparr>)\<rparr>) start)) =
     console start @ [LogError noFilePath] \<and>
   edits (snd (createProject (acme\<lparr>getFile := (\<lambda>i. Inr \<lparr>file_path = None\<rparr>)\<rparr>) start)) =
     edits start @ [uploadErrorText, uploadedAgainText] \<and>
   inserts (snd (createProject (acme\<lparr>getFile := (\<lambda>i. Inr \<lparr>file_path = None\<rparr>)\<rparr>) start)) =
     inserts start"
proof -
  let ?env = "acme\<lparr>getFile := (\<lambda>i. Inr \<lparr>file_path = None\<rparr>)\<rparr>"
  let ?ps = "[\<lparr>file_id = ''small''\<rparr>, \<lparr>file_id = ''large''\<rparr>]"
  have run: "createProject ?env start =
      (fst (createProject ?env start), snd (createProject ?env start))"
    by simp
  have tid: "twitterId (twitterInput ?env) = Some ''no''" by code_simp
  have gid: "githubId (githubInput ?env) = Some ''acme-oss''" by code_simp
  have m: "message ?env = Some \<lparr>photo = Some ?ps\<rparr>" by code_simp
  have ps: "photo \<lparr>photo = Some ?ps\<rparr> = Some ?ps" by simp
  have up: "try_upload ?env (createSlug ?env (projectName ?env)) ?ps = (Inl noFilePath, [])"
    by code_simp
  from upload_failure_falls_through[OF run tid gid m ps up] show ?thesis by simp
qed

text \<open>
  Claim C3, as amended. For every handle over \<^verbatim>\<open>[a-zA-Z0-9_]\<close>,
  \<open>extractUsernameFromUrl\<close> returns exactly the handle from the address
  \<^verbatim>\<open>twitter.com/<handle>\<close>, with or without \<^verbatim>\<open>https://\<close> and with or without
  \<^verbatim>\<open>www.\<close>. The link given to the insert is \<^verbatim>\<open>https://twitter.com/<handle>\<close> when the
  input carries the prefix \<^verbatim>\<open>https://\<close> (only an input that starts with \<^verbatim>\<open>http\<close> is
  passed to the extractor) and the handle is not the word \<^verbatim>\<open>no\<close>.
\<close>

theorem twitter_url_handle_and_link:
  assumes h: "handle Twitter h"
  shows "extractUsernameFromUrl (''https://twitter.com/'' @ h) Twitter = Some h \<and>
         extractUsernameFromUrl (''https://www.twitter.com/'' @ h) Twitter = Some h \<and>
         extractUsernameFromUrl (''twitter.com/'' @ h) Twitter = Some h \<and>
         extractUsernameFromUrl (''www.twitter.com/'' @ h) Twitter = Some h \<and>
         (h \<noteq> ''no'' \<and>
          (twitterInput env = ''https://twitter.com/'' @ h \<or>
           twitterInput env = ''https://www.twitter.com/'' @ h) \<and>
          createProject env st = (out, st') \<and> inserts st' = inserts st @ [p] \<longrightarrow>
            (\<exists>others. links p = Link ''Twitter'' (''https://twitter.com/'' @ h) # others))"
proof -
  note ex = extract_twitter_url[OF h]
  have "\<exists>others. links p = Link ''Twitter'' (''https://twitter.com/'' @ h) # others"
    if no: "h \<noteq> ''no''"
      and inp: "twitterInput env = ''https://twitter.com/'' @ h \<or>
                twitterInput env = ''https://www.twitter.com/'' @ h"
      and run: "createProject env st = (out, st')" and ins: "inserts st' = inserts st @ [p]"
  proof -
    from h have ne: "h \<noteq> []" by (simp add: handle_def)
    from inp ex(1,2) ne have tid: "twitterId (twitterInput env) = Some h"
      by (auto simp add: twitterId_def startsWith_def)
    from ins have "inserts st' \<noteq> inserts st" by simp
    from inserted_row[OF run this] ins tid obtain gid where
      "links p = (case twitterLink h of None \<Rightarrow> [] | Some u \<Rightarrow> [Link ''Twitter'' u]) @
                 (case githubLink gid of None \<Rightarrow> [] | Some u \<Rightarrow> [Link ''GitHub'' u])"
      by auto
    with no show ?thesis by (simp add: twitterLink_def)
  qed
  with ex show ?thesis by blast
qed

text \<open>The handle jack behind \<^verbatim>\<open>https://www.twitter.com/\<close>.\<close>

theorem twitter_url_handle_and_link_witness:
  "handle Twitter ''jack'' \<and>
   extractUsernameFromUrl ''https://www.twitter.com/jack'' Twitter = Some ''jack'' \<and>
   (\<exists>others.
      links (last (inserts (snd (createProject
        (acme\<lparr>twitterInput := ''https://www.twitter.com/jack''\<rparr>) start)))) =
      Link ''Twitter'' ''https://twitter.com/jack'' # others)"
proof -
  let ?env = "acme\<lparr>twitterInput := ''https://www.twitter.com/jack''\<rparr>"
  have h: "handle Twitter ''jack''" by code_simp
  have ins: "inserts (snd (createProject ?env start)) =
      inserts start @ [last (inserts (snd (createProject ?env start)))]"
    by code_simp
  from twitter_url_handle_and_link[OF h, of ?env start "fst (createProject ?env start)"
      "snd (createProject ?env start)" "last (inserts (snd (createProject ?env start)))"]
    h ins
  show ?thesis by simp
qed

text \<open>
  Claim C3 as stated fails in two ways. Without the protocol the input does not start with
  \<^verbatim>\<open>http\<close>, so the whole input becomes the handle and the link is
  \<^verbatim>\<open>https://twitter.com/twitter.com/jack\<close>. And for the handle \<^verbatim>\<open>no\<close> the row has no
  Twitter link at all.
\<close>

theorem twitter_link_counterexample:
  "handle Twitter ''jack'' \<and>
   extractUsernameFromUrl ''twitter.com/jack'' Twitter = Some ''jack'' \<and>
   links (last (inserts (snd (createProject
     (acme\<lparr>twitterInput := ''twitter.com/jack''\<rparr>) start)))) =
     [Link ''Twitter'' ''https://twitter.com/twitter.com/jack'',
      Link ''GitHub'' ''https://github.com/acme-oss''] \<and>
   Link ''Twitter'' ''https://twitter.com/jack'' \<notin>
     set (links (last (inserts (snd (createProject
       (acme\<lparr>twitterInput := ''twitter.com/jack''\<rparr>) start))))) \<and>
   handle Twitter ''no'' \<and>
   extractUsernameFromUrl ''https://twitter.com/no'' Twitter = Some ''no'' \<and>
   links (last (inserts (snd (createProject
     (acme\<lparr>twitterInput := ''https://twitter.com/no''\<rparr>) start)))) =
     [Link ''GitHub'' ''https://github.com/acme-oss''] \<and>
   Link ''Twitter'' ''https://twitter.com/no'' \<notin>
     set (links (last (inserts (snd (createProject
       (acme\<lparr>twitterInput := ''https://twitter.com/no''\<rparr>) start)))))"
  by code_simp

text \<open>
  Claim C4 at a path without a dot. \<^verbatim>\<open>split(".")\<close> returns the whole path as its only
  part, \<^verbatim>\<open>pop()\<close> returns that non-empty part, and the default \<^verbatim>\<open>jpg\<close> is not taken:
  the extension is the whole path and the object is stored as \<^verbatim>\<open>acme.photos/file_1\<close>
  (the content type falls back to \<^verbatim>\<open>image/jpeg\<close>, as the claim says). For paths with a
  dot the claim holds, see \<open>fileExtension_dotted\<close> and \<open>try_upload_call\<close>.
\<close>

theorem extension_of_path_without_dot:
  "fileExtension ''photos/file_1'' = ''photos/file_1'' \<and>
   uploads (snd (createProject
      (acme\<lparr>getFile := (\<lambda>i. Inr \<lparr>file_path = Some ''photos/file_1''\<rparr>)\<rparr>) start)) =
     [(''acme.photos/file_1'', [1, 2, 3], ''image/jpeg'')]"
  by code_simp

text \<open>
  Claim C5. When the Twitter or the GitHub input starts with \<^verbatim>\<open>http\<close> and the pattern of
  its platform finds no handle, the conversation returns at once: its last message is the
  invalid-address warning of the first such platform, nothing is uploaded, edited, inserted
  or announced, and neither map changes.
\<close>

theorem invalid_url_stops_the_flow:
  assumes run: "createProject env st = (out, st')"
    and bad: "(startsWith (twitterInput env) ''http'' \<and>
               extractUsernameFromUrl (twitterInput env) Twitter = None) \<or>
              (startsWith (githubInput env) ''http'' \<and>
               extractUsernameFromUrl (githubInput env) Github = None)"
  shows "out = Returned \<and>
         last (replies st') =
           (if startsWith (twitterInput env) ''http'' \<and>
               extractUsernameFromUrl (twitterInput env) Twitter = None
            then invalidTwitterUrl else invalidGithubUrl) \<and>
         inserts st' = inserts st \<and> uploads st' = uploads st \<and> edits st' = edits st \<and>
         alerts st' = alerts st \<and> projectRecord st' = projectRecord st \<and>
         activeProjectRecord st' = activeProjectRecord st"
proof -
  from bad have early: "twitterId (twitterInput env) = None \<or> githubId (githubInput env) = None \<or>
      message env = None \<or> (\<exists>m. message env = Some m \<and> photo m = None)"
    unfolding twitterId_None githubId_None by blast
  from createProject_stops_early[OF run early] bad show ?thesis
    unfolding twitterId_None githubId_None by auto
qed

text \<open>An address of another site, once as the Twitter input and once as the GitHub input.\<close>

theorem invalid_url_stops_the_flow_witness:
  "startsWith ''https://x.com/elonmusk'' ''http'' \<and>
   extractUsernameFromUrl ''https://x.com/elonmusk'' Twitter = None \<and>
   fst (createProject (acme\<lparr>twitterInput := ''https://x.com/elonmusk''\<rparr>) start) = Returned \<and>
   last (replies (snd (createProject
     (acme\<lparr>twitterInput := ''https://x.com/elonmusk''\<rparr>) start))) = invalidTwitterUrl \<and>
   inserts (snd (createProject
     (acme\<lparr>twitterInput := ''https://x.com/elonmusk''\<rparr>) start)) = inserts start \<and>
   activeProjectRecord (snd (createProject
     (acme\<lparr>twitterInput := ''https://x.com/elonmusk''\<rparr>) start)) = activeProjectRecord start \<and>
   startsWith ''https://gitlab.com/acme'' ''http'' \<and>
   extractUsernameFromUrl ''https://gitlab.com/acme'' Github = None \<and>
   fst (createProject (acme\<lparr>githubInput := ''https://gitlab.com/acme''\<rparr>) start) = Returned \<and>
   last (replies (snd (createProject
     (acme\<lparr>githubInput := ''https://gitlab.com/acme''\<rparr>) start))) = invalidGithubUrl \<and>
   inserts (snd (createProject
     (acme\<lparr>githubInput := ''https://gitlab.com/acme''\<rparr>) start)) = inserts start \<and>
   activeProjectRecord (snd (createProject
     (acme\<lparr>githubInput := ''https://gitlab.com/acme''\<rparr>) start)) = activeProjectRecord start"
proof -
  let ?tw = "acme\<lparr>twitterInput := ''https://x.com/elonmusk''\<rparr>"
  let ?gh = "acme\<lparr>githubInput := ''https://gitlab.com/acme''\<rparr>"
  have s1: "startsWith ''https://x.com/elonmusk'' ''http''" by code_simp
  have x1: "extractUsernameFromUrl ''https://x.com/elonmusk'' Twitter = None" by code_simp
  have s2: "startsWith ''https://gitlab.com/acme'' ''http''" by code_simp
  have x2: "extractUsernameFromUrl ''https://gitlab.com/acme'' Github = None" by code_simp
  have t2: "\<not> startsWith (twitterInput ?gh) ''http''" by code_simp
  from invalid_url_stops_the_flow
         [of ?tw start "fst (createProject ?tw start)" "snd (createProject ?tw start)"]
       invalid_url_stops_the_flow
         [of ?gh start "fst (createProject ?gh start)" "snd (createProject ?gh start)"]
       s1 x1 s2 x2 t2
  show ?thesis by simp
qed

text \<open>
  Claim C6. The links of the inserted row are at most one Twitter link followed by at most
  one GitHub link; the Twitter link is absent when the Twitter input is the word
  \<^verbatim>\<open>no\<close>, and the GitHub link is absent when the GitHub input is the word \<^verbatim>\<open>no\<close>.
\<close>

theorem no_skips_the_platform:
  assumes run: "createProject env st = (out, st')"
    and ins: "inserts st' = inserts st @ [p]"
  shows "\<exists>tw gh. links p = tw @ gh \<and>
           (tw = [] \<or> (\<exists>u. tw = [Link ''Twitter'' u])) \<and>
           (gh = [] \<or> (\<exists>u. gh = [Link ''GitHub'' u])) \<and>
           (twitterInput env = ''no'' \<longrightarrow> tw = []) \<and>
           (githubInput env = ''no'' \<longrightarrow> gh = [])"
proof -
  from ins have "inserts st' \<noteq> inserts st" by simp
  from inserted_row[OF run this] ins obtain tid gid where
    tid: "twitterId (twitterInput env) = Some tid" and
    gid: "githubId (githubInput env) = Some gid" and
    l: "links p = (case twitterLink tid of None \<Rightarrow> [] | Some u \<Rightarrow> [Link ''Twitter'' u]) @
                  (case githubLink gid of None \<Rightarrow> [] | Some u \<Rightarrow> [Link ''GitHub'' u])"
    by auto
  have tw: "twitterInput env = ''no'' \<longrightarrow> twitterLink tid = None"
    using tid by (auto simp add: twitterId_def twitterLink_def startsWith_def)
  have gh: "githubInput env = ''no'' \<longrightarrow> githubLink gid = None"
    using gid by (auto simp add: githubId_def githubLink_def startsWith_def)
  show ?thesis
    apply (rule exI[of _ "case twitterLink tid of None \<Rightarrow> [] | Some u \<Rightarrow> [Link ''Twitter'' u]"])
    apply (rule exI[of _ "case githubLink gid of None \<Rightarrow> [] | Some u \<Rightarrow> [Link ''GitHub'' u]"])
    using l tw gh by (auto split: option.splits)
qed

text \<open>The sample conversation skips Twitter; a variant skips GitHub as well.\<close>

theorem no_skips_the_platform_witness:
  "twitterInput acme = ''no'' \<and>
   ''Twitter'' \<notin> set (map link_title (links (last (inserts (snd (createProject acme start)))))) \<and>
   githubInput (acme\<lparr>githubInput := ''no''\<rparr>) = ''no'' \<and>
   links (last (inserts (snd (createProject (acme\<lparr>githubInput := ''no''\<rparr>) start)))) = []"
proof -
  let ?env = "acme\<lparr>githubInput := ''no''\<rparr>"
  have run1: "createProject acme start =
      (fst (createProject acme start), snd (createProject acme start))"
    by simp
  have ins1: "inserts (snd (createProject acme start)) =
      inserts start @ [last (inserts (snd (createProject acme start)))]"
    by code_simp
  have tw1: "twitterInput acme = ''no''" by code_simp
  have run2: "createProject ?env start =
      (fst (createProject ?env start), snd (createProject ?env start))"
    by simp
  have ins2: "inserts (snd (createProject ?env start)) =
      inserts start @ [last (inserts (snd (createProject ?env start)))]"
    by code_simp
  have tw2: "twitterInput ?env = ''no''" by code_simp
  from no_skips_the_platform[OF run1 ins1] no_skips_the_platform[OF run2 ins2] tw1 tw2
  show ?thesis by auto
qed

text \<open>
  Claim C7. An input that neither starts with \<^verbatim>\<open>http\<close> nor is the word \<^verbatim>\<open>no\<close> is
  taken as the handle unchanged, and the inserted row links to
  \<^verbatim>\<open>https://twitter.com/\<close> (first in the list) or \<^verbatim>\<open>https://github.com/\<close> (last in the
  list) followed by that input.
\<close>

theorem bare_handle_is_linked:
  assumes run: "createProject env st = (out, st')"
    and ins: "inserts st' = inserts st @ [p]"
  shows "(\<not> startsWith (twitterInput env) ''http'' \<and> twitterInput env \<noteq> ''no'' \<longrightarrow>
            twitterId (twitterInput env) = Some (twitterInput env) \<and>
            (\<exists>others. links p =
               Link ''Twitter'' (''https://twitter.com/'' @ twitterInput env) # others)) \<and>
         (\<not> startsWith (githubInput env) ''http'' \<and> githubInput env \<noteq> ''no'' \<longrightarrow>
            githubId (githubInput env) = Some (githubInput env) \<and>
            (\<exists>others. links p =
               others @ [Link ''GitHub'' (''https://github.com/'' @ githubInput env)]))"
proof -
  from ins have "inserts st' \<noteq> inserts st" by simp
  from inserted_row[OF run this] ins obtain tid gid where
    tid: "twitterId (twitterInput env) = Some tid" and
    gid: "githubId (githubInput env) = Some gid" and
    l: "links p = (case twitterLink tid of None \<Rightarrow> [] | Some u \<Rightarrow> [Link ''Twitter'' u]) @
                  (case githubLink gid of None \<Rightarrow> [] | Some u \<Rightarrow> [Link ''GitHub'' u])"
    by auto
  have tw: "\<not> startsWith (twitterInput env) ''http'' \<and> twitterInput env \<noteq> ''no'' \<longrightarrow>
      tid = twitterInput env \<and>
      twitterLink tid = Some (''https://twitter.com/'' @ twitterInput env)"
    using tid by (auto simp add: twitterId_def twitterLink_def split: if_splits)
  have gh: "\<not> startsWith (githubInput env) ''http'' \<and> githubInput env \<noteq> ''no'' \<longrightarrow>
      gid = githubInput env \<and>
      githubLink gid = Some (''https://github.com/'' @ githubInput env)"
    using gid by (auto simp add: githubId_def githubLink_def split: if_splits)
  from tw gh tid gid l show ?thesis by auto
qed

text \<open>The bare handles elonmusk and acme-oss.\<close>

theorem bare_handle_is_linked_witness:
  "\<not> startsWith ''elonmusk'' ''http'' \<and> ''elonmusk'' \<noteq> ''no'' \<and>
   \<not> startsWith ''acme-oss'' ''http'' \<and> ''acme-oss'' \<noteq> ''no'' \<and>
   links (last (inserts (snd (createProject
     (acme\<lparr>twitterInput := ''elonmusk'', githubInput := ''acme-oss''\<rparr>) start)))) =
     [Link ''Twitter'' ''https://twitter.com/elonmusk'',
      Link ''GitHub'' ''https://github.com/acme-oss'']"
proof -
  let ?env = "acme\<lparr>twitterInput := ''elonmusk'', githubInput := ''acme-oss''\<rparr>"
  have run: "createProject ?env start =
      (fst (createProject ?env start), snd (createProject ?env start))"
    by simp
  have ins: "inserts (snd (createProject ?env start)) =
      inserts start @ [last (inserts (snd (createProject ?env start)))]"
    by code_simp
  have len: "length (links (last (inserts (snd (createProject ?env start))))) = 2"
    by code_simp
  have tw: "\<not> startsWith ''elonmusk'' ''http''" by code_simp
  have gh: "\<not> startsWith ''acme-oss'' ''http''" by code_simp
  from bare_handle_is_linked[OF run ins] tw gh obtain a b where
    a: "links (last (inserts (snd (createProject ?env start)))) =
          Link ''Twitter'' ''https://twitter.com/elonmusk'' # a"
    and b: "links (last (inserts (snd (createProject ?env start)))) =
          b @ [Link ''GitHub'' ''https://github.com/acme-oss'']"
    by auto
  from len a have "length a = 1" by simp
  then obtain x where x: "a = [x]" by (cases a) auto
  from a b x have "x = Link ''GitHub'' ''https://github.com/acme-oss''"
    by (cases b) auto
  with a x tw gh show ?thesis by simp
qed

text \<open>
  Claim C8. When the insert is issued and answers with an error or without a row, the
  conversation sends the generic error message and then throws an \<^verbatim>\<open>Error\<close> with the
  message of the insert error (if any). The insert was issued exactly once, no map
  changes, nothing is announced, and the status message stays at the text shown before
  the insert.
\<close>

theorem insert_failure_is_fatal:
  assumes run: "createProject env st = (out, st')"
    and ins: "inserts st' \<noteq> inserts st"
    and res: "insertProject env (last (inserts st')) = (data, insertError)"
    and bad: "insertError \<noteq> None \<or> data = None"
  shows "out = Threw (Error (map_option error_message insertError)) \<and>
         last (replies st') = insertErrorText \<and>
         last (edits st') = creatingText \<and>
         length (inserts st') = length (inserts st) + 1 \<and>
         projectRecord st' = projectRecord st \<and>
         activeProjectRecord st' = activeProjectRecord st \<and>
         alerts st' = alerts st"
proof (cases rule: createProject_cases[of env])
  case early
  from createProject_stops_early[OF run early] ins show ?thesis by simp
next
  case (failed tid gid m ps r ups)
  from createProject_upload_failed[OF run failed] ins show ?thesis by simp
next
  case (uploaded tid gid m ps d ups)
  from createProject_uploaded[OF run uploaded] obtain st1 where
    st1: "createProject_insert env (createSlug env (projectName env))
            (twitterLink tid) (githubLink gid) (Some d) st1 = (out, st')"
    and same: "projectRecord st1 = projectRecord st"
      "activeProjectRecord st1 = activeProjectRecord st" "inserts st1 = inserts st"
      "alerts st1 = alerts st"
    by blast
  from createProject_insert_fails[OF st1 res bad] createProject_insert_row[OF st1] same
  show ?thesis by simp
qed

text \<open>The sample conversation with a database that rejects the row.\<close>

theorem insert_failure_is_fatal_witness:
  "fst (createProject
     (acme\<lparr>insertProject := (\<lambda>row. (None, Some (PostgrestError ''duplicate key'')))\<rparr>) start) =
     Threw (Error (Some ''duplicate key'')) \<and>
   last (replies (snd (createProject
     (acme\<lparr>insertProject := (\<lambda>row. (None, Some (PostgrestError ''duplicate key'')))\<rparr>) start))) =
     insertErrorText \<and>
   length (inserts (snd (createProject
     (acme\<lparr>insertProject := (\<lambda>row. (None, Some (PostgrestError ''duplicate key'')))\<rparr>) start))) =
     1 \<and>
   activeProjectRecord (snd (createProject
     (acme\<lparr>insertProject := (\<lambda>row. (None, Some (PostgrestError ''duplicate key'')))\<rparr>) start)) =
     activeProjectRecord start"
proof -
  let ?env = "acme\<lparr>insertProject := (\<lambda>row. (None, Some (PostgrestError ''duplicate key'')))\<rparr>"
  have run: "createProject ?env start =
      (fst (createProject ?env start), snd (createProject ?env start))"
    by simp
  have ins: "inserts (snd (createProject ?env start)) \<noteq> inserts start"
    by code_simp
  have res: "insertProject ?env (last (inserts (snd (createProject ?env start)))) =
      (None, Some (PostgrestError ''duplicate key''))"
    by simp
  have st: "inserts start = []" by (simp add: start_def)
  from insert_failure_is_fatal[OF run ins res] st show ?thesis by simp
qed



text \<open>
  Claim C10. The comparison with \<^verbatim>\<open>no\<close> is made on the extracted handle: an address
  whose handle is \<^verbatim>\<open>no\<close> is not the word \<^verbatim>\<open>no\<close> itself, yet the inserted row has no
  link of that platform.
\<close>

theorem url_with_handle_no_is_skipped:
  assumes run: "createProject env st = (out, st')"
    and ins: "inserts st' = inserts st @ [p]"
  shows "(startsWith (twitterInput env) ''http'' \<and>
          extractUsernameFromUrl (twitterInput env) Twitter = Some ''no'' \<longrightarrow>
            twitterInput env \<noteq> ''no'' \<and> (\<forall>l \<in> set (links p). link_title l \<noteq> ''Twitter'')) \<and>
         (startsWith (githubInput env) ''http'' \<and>
          extractUsernameFromUrl (githubInput env) Github = Some ''no'' \<longrightarrow>
            githubInput env \<noteq> ''no'' \<and> (\<forall>l \<in> set (links p). link_title l \<noteq> ''GitHub''))"
proof -
  from ins have "inserts st' \<noteq> inserts st" by simp
  from inserted_row[OF run this] ins obtain tid gid where
    tid: "twitterId (twitterInput env) = Some tid" and
    gid: "githubId (githubInput env) = Some gid" and
    l: "links p = (case twitterLink tid of None \<Rightarrow> [] | Some u \<Rightarrow> [Link ''Twitter'' u]) @
                  (case githubLink gid of None \<Rightarrow> [] | Some u \<Rightarrow> [Link ''GitHub'' u])"
    by auto
  have tw: "startsWith (twitterInput env) ''http'' \<and>
      extractUsernameFromUrl (twitterInput env) Twitter = Some ''no'' \<longrightarrow>
      twitterInput env \<noteq> ''no'' \<and> twitterLink tid = None"
    using tid by (auto simp add: twitterId_def twitterLink_def startsWith_def)
  have gh: "startsWith (githubInput env) ''http'' \<and>
      extractUsernameFromUrl (githubInput env) Github = Some ''no'' \<longrightarrow>
      githubInput env \<noteq> ''no'' \<and> githubLink gid = None"
    using gid by (auto simp add: githubId_def githubLink_def startsWith_def)
  from tw gh l show ?thesis by (auto split: option.splits)
qed

text \<open>The addresses \<^verbatim>\<open>https://twitter.com/no\<close> and \<^verbatim>\<open>https://github.com/no\<close>.\<close>

theorem url_with_handle_no_is_skipped_witness:
  "startsWith ''https://twitter.com/no'' ''http'' \<and>
   extractUsernameFromUrl ''https://twitter.com/no'' Twitter = Some ''no'' \<and>
   ''Twitter'' \<notin> set (map link_title (links (last (inserts (snd (createProject
       (acme\<lparr>twitterInput := ''https://twitter.com/no''\<rparr>) start)))))) \<and>
   startsWith ''https://github.com/no'' ''http'' \<and>
   extractUsernameFromUrl ''https://github.com/no'' Github = Some ''no'' \<and>
   ''GitHub'' \<notin> set (map link_title (links (last (inserts (snd (createProject
       (acme\<lparr>githubInput := ''https://github.com/no''\<rparr>) start))))))"
proof -
  let ?tw = "acme\<lparr>twitterInput := ''https://twitter.com/no''\<rparr>"
  let ?gh = "acme\<lparr>githubInput := ''https://github.com/no''\<rparr>"
  have run1: "createProject ?tw start =
      (fst (createProject ?tw start), snd (createProject ?tw start))"
    by simp
  have ins1: "inserts (snd (createProject ?tw start)) =
      inserts start @ [last (inserts (snd (createProject ?tw start)))]"
    by code_simp
  have s1: "startsWith ''https://twitter.com/no'' ''http''" by code_simp
  have x1: "extractUsernameFromUrl ''https://twitter.com/no'' Twitter = Some ''no''"
    by code_simp
  have run2: "createProject ?gh start =
      (fst (createProject ?gh start), snd (createProject ?gh start))"
    by simp
  have ins2: "inserts (snd (createProject ?gh start)) =
      inserts start @ [last (inserts (snd (createProject ?gh start)))]"
    by code_simp
  have s2: "startsWith ''https://github.com/no'' ''http''" by code_simp
  have x2: "extractUsernameFromUrl ''https://github.com/no'' Github = Some ''no''"
    by code_simp
  from url_with_handle_no_is_skipped[OF run1 ins1] url_with_handle_no_is_skipped[OF run2 ins2]
    s1 x1 s2 x2
  show ?thesis by auto
qed

end
